theory Spec2Isabelle
  imports Complex_Main "HOL-Library.Product_Lexorder" "HOL-Library.List_Lexorder"
begin

section \<open>JavaScript values\<close>

text \<open>
  The server exchanges JSON with its clients and keeps its records as plain
  JavaScript objects (the in-memory store) or as rows that the MySQL driver
  hands back as objects (the relational store). A value is one of the JSON
  shapes, or a date: \<open>JDate n\<close> is the instant \<open>n\<close> seconds after the epoch,
  standing both for a DATETIME cell and for the \<open>YYYY-MM-DD HH:MM:SS\<close> text the
  handlers build from \<open>new Date()\<close>. An object keeps its properties in
  insertion order. A property that is absent reads as \<open>undefined\<close>, which is
  \<open>None\<close> here.
\<close>

datatype jv =
    JNull
  | JBool bool
  | JNum rat
  | JStr string
  | JDate int
  | JArr "jv list"
  | JObj "(string \<times> jv) list"

type_synonym obj = "(string \<times> jv) list"

definition obj_get :: "obj \<Rightarrow> string \<Rightarrow> jv option" where
  "obj_get ob k = map_of ob k"

text \<open>JavaScript truthiness, as \<open>!x\<close>, \<open>x || y\<close> and \<open>if (x)\<close> use it.\<close>

fun truthy :: "jv option \<Rightarrow> bool" where
  "truthy None = False"
| "truthy (Some JNull) = False"
| "truthy (Some (JBool b)) = b"
| "truthy (Some (JNum r)) = (r \<noteq> 0)"
| "truthy (Some (JStr s)) = (s \<noteq> [])"
| "truthy (Some (JDate n)) = True"
| "truthy (Some (JArr xs)) = True"
| "truthy (Some (JObj ps)) = True"

text \<open>\<open>x || d\<close> where \<open>d\<close> is defined.\<close>

definition js_or :: "jv option \<Rightarrow> jv \<Rightarrow> jv" where
  "js_or x d = (case x of None \<Rightarrow> d | Some v \<Rightarrow> if truthy (Some v) then v else d)"

text \<open>\<open>x ?? y ?? d\<close>: the first operand that is neither \<open>undefined\<close> nor \<open>null\<close>.\<close>

definition nullish :: "jv option \<Rightarrow> bool" where
  "nullish x = (x = None \<or> x = Some JNull)"

definition js_coalesce :: "jv option \<Rightarrow> jv option \<Rightarrow> jv \<Rightarrow> jv" where
  "js_coalesce x y d =
     (if \<not> nullish x then the x else if \<not> nullish y then the y else d)"

text \<open>Truthiness of a query-string parameter (a string, or absent).\<close>

definition str_truthy :: "string option \<Rightarrow> bool" where
  "str_truthy s = (case s of None \<Rightarrow> False | Some t \<Rightarrow> t \<noteq> [])"

text \<open>Assignment \<open>o[k] = v\<close>: an existing key keeps its place, a new key goes last.\<close>

fun obj_put :: "string \<Rightarrow> jv \<Rightarrow> obj \<Rightarrow> obj" where
  "obj_put k v [] = [(k, v)]"
| "obj_put k v (p # ps) = (if fst p = k then (k, v) # ps else p # obj_put k v ps)"

text \<open>The spread \<open>{ ...a, ...b }\<close>: the properties of \<open>b\<close> assigned onto a copy of \<open>a\<close>.\<close>

definition spread :: "obj \<Rightarrow> obj \<Rightarrow> obj" where
  "spread a b = foldl (\<lambda>acc kv. obj_put (fst kv) (snd kv) acc) a b"

text \<open>\<open>Array.prototype.findIndex\<close>; \<open>None\<close> is the source's \<open>-1\<close>.\<close>

fun findIndex :: "('a \<Rightarrow> bool) \<Rightarrow> 'a list \<Rightarrow> nat option" where
  "findIndex P [] = None"
| "findIndex P (x # xs) =
     (if P x then Some 0 else map_option Suc (findIndex P xs))"

text \<open>\<open>Array.prototype.splice(index, 1)\<close>.\<close>

definition splice1 :: "nat \<Rightarrow> 'a list \<Rightarrow> 'a list" where
  "splice1 i xs = take i xs @ drop (Suc i) xs"

text \<open>
  \<open>Array.prototype.slice(start, end)\<close>: a negative bound counts from the end
  of the array, both bounds are clamped to the array, and an empty range gives
  the empty array.
\<close>

definition js_slice :: "'a list \<Rightarrow> int \<Rightarrow> int \<Rightarrow> 'a list" where
  "js_slice xs start fin =
     (let len = int (length xs);
          k = (if start < 0 then max (len + start) 0 else min start len);
          e = (if fin < 0 then max (len + fin) 0 else min fin len)
      in take (nat (e - k)) (drop (nat k) xs))"

subsection \<open>parseInt\<close>

text \<open>
  \<open>parseInt(s)\<close> with no radix: leading white space is skipped, a sign is
  read, a \<open>0x\<close> prefix selects radix 16, and the longest prefix of digits is
  converted; with no digit the result is \<open>NaN\<close>, here \<open>None\<close>. The result is
  the exact integer (a double is exact up to \<open>2^53\<close>). \<open>parseInt(undefined)\<close>
  is \<open>NaN\<close>.
\<close>

definition is_space :: "char \<Rightarrow> bool" where
  "is_space c = (c \<in> set [CHR '' '', CHR 0x09, CHR 0x0A, CHR 0x0B, CHR 0x0C, CHR 0x0D])"

definition digit_of :: "char \<Rightarrow> nat option" where
  "digit_of c =
     (let n = (of_char c :: nat) in
      if 48 \<le> n \<and> n \<le> 57 then Some (n - 48)
      else if 97 \<le> n \<and> n \<le> 102 then Some (n - 87)
      else if 65 \<le> n \<and> n \<le> 70 then Some (n - 55)
      else None)"

definition is_digit :: "nat \<Rightarrow> char \<Rightarrow> bool" where
  "is_digit radix c = (case digit_of c of None \<Rightarrow> False | Some d \<Rightarrow> d < radix)"

definition digits_value :: "nat \<Rightarrow> string \<Rightarrow> nat" where
  "digits_value radix ds = foldl (\<lambda>acc c. acc * radix + the (digit_of c)) 0 ds"

definition parseInt :: "string option \<Rightarrow> int option" where
  "parseInt q =
     (case q of
        None \<Rightarrow> None
      | Some s \<Rightarrow>
          (let s1 = dropWhile is_space s;
               neg = (take 1 s1 = ''-'');
               s2 = (if take 1 s1 = ''-'' \<or> take 1 s1 = ''+'' then drop 1 s1 else s1);
               hex = (take 2 s2 = ''0x'' \<or> take 2 s2 = ''0X'');
               radix = (if hex then 16 else 10);
               s3 = (if hex then drop 2 s2 else s2);
               ds = takeWhile (is_digit radix) s3
           in if ds = [] then None
              else Some ((if neg then - 1 else 1) * int (digits_value radix ds))))"

text \<open>\<open>parseInt(x) || d\<close>: \<open>NaN\<close> and \<open>0\<close> are falsy.\<close>

definition int_or :: "int option \<Rightarrow> int \<Rightarrow> int" where
  "int_or x d = (case x of None \<Rightarrow> d | Some n \<Rightarrow> if n = 0 then d else n)"

text \<open>
  \<open>Math.ceil(total / limit)\<close> on integers. The divisor is never zero where the
  handlers call it; a negative zero prints as \<open>0\<close> in JSON.
\<close>

definition ceil_div :: "int \<Rightarrow> int \<Rightarrow> int" where
  "ceil_div n d = \<lceil>(of_int n :: rat) / of_int d\<rceil>"



section \<open>Collaborators\<close>

text \<open>
  The token library, the password hash and the clock are outside the
  repository; the handlers take them as parameters. \<open>jwt_sign payload ttl t\<close>
  is \<open>jwt.sign(payload, JWT_SECRET, {expiresIn: ttl})\<close> called at instant \<open>t\<close>
  (seconds), \<open>jwt_verify token t\<close> is \<open>jwt.verify(token, JWT_SECRET)\<close> at
  instant \<open>t\<close>, with \<open>None\<close> for the exception it throws, and
  \<open>bcrypt_compare password digest\<close> is \<open>bcrypt.compare\<close>.
\<close>

record claims =
  userId :: string
  email :: string
  role :: string


definition seven_days :: int where
  "seven_days = 7 * 24 * 60 * 60"

record response =
  statusCode :: nat
  json :: jv

text \<open>\<open>res.status(c).json({ error: msg })\<close>.\<close>

definition err_response :: "nat \<Rightarrow> string \<Rightarrow> response" where
  "err_response c msg = \<lparr>statusCode = c, json = JObj [(''error'', JStr msg)]\<rparr>"



section \<open>The in-memory store\<close>

text \<open>
  \<open>MockDatabase\<close> holds two arrays. A user has the eight fields the seed and
  the register handler give it; a trade is whatever object was pushed.
\<close>

record user =
  u_id :: string
  u_name :: string
  u_email :: string
  u_password_hash :: string
  u_role :: string
  u_status :: string
  u_created_at :: int
  u_updated_at :: int

record MockDatabase =
  users :: "user list"
  trades :: "obj list"





definition getTradeById :: "MockDatabase \<Rightarrow> string \<Rightarrow> obj option" where
  "getTradeById db i = find (\<lambda>t. obj_get t ''id'' = Some (JStr i)) (trades db)"

definition getAllTrades :: "MockDatabase \<Rightarrow> obj list" where
  "getAllTrades db = trades db"

definition createTrade :: "MockDatabase \<Rightarrow> obj \<Rightarrow> obj \<times> MockDatabase" where
  "createTrade db tradeData = (tradeData, db\<lparr>trades := trades db @ [tradeData]\<rparr>)"

definition updateTrade :: "MockDatabase \<Rightarrow> string \<Rightarrow> obj \<Rightarrow> obj option \<times> MockDatabase" where
  "updateTrade db i updates =
     (case findIndex (\<lambda>t. obj_get t ''id'' = Some (JStr i)) (trades db) of
        None \<Rightarrow> (None, db)
      | Some index \<Rightarrow>
          (let t' = spread (trades db ! index) updates
           in (Some t', db\<lparr>trades := (trades db)[index := t']\<rparr>)))"

definition deleteTrade :: "MockDatabase \<Rightarrow> string \<Rightarrow> bool \<times> MockDatabase" where
  "deleteTrade db i =
     (case findIndex (\<lambda>t. obj_get t ''id'' = Some (JStr i)) (trades db) of
        None \<Rightarrow> (False, db)
      | Some index \<Rightarrow> (True, db\<lparr>trades := splice1 index (trades db)\<rparr>))"

section \<open>The relational store\<close>

text \<open>
  The MySQL side is outside the repository. The model keeps what the
  statements of the handlers can observe: the columns the \<open>trades\<close> table has
  in the live schema (what \<open>SHOW COLUMNS FROM trades\<close> lists), its rows, and
  the rows of \<open>users\<close>. A row is an object from column name to cell, as the
  driver returns it; SQL \<open>NULL\<close> is \<open>JNull\<close>, and a column the row does not
  mention reads as \<open>NULL\<close>. Comparison \<open>col = ?\<close> is exact equality of two
  non-null values (no collation folding, no coercion between types). A
  statement that names a column the schema lacks fails with
  \<open>ER_BAD_FIELD_ERROR\<close>; a negative \<open>LIMIT\<close> or \<open>OFFSET\<close> is a syntax error.
  Constraint violations and connection failures are not modelled.
\<close>

record sqldb =
  trade_columns :: "string list"
  trade_rows :: "obj list"
  user_rows :: "user list"

datatype sqlerr = ER_BAD_FIELD_ERROR | ER_PARSE_ERROR

definition err_message :: "sqlerr \<Rightarrow> string" where
  "err_message e = (case e of ER_BAD_FIELD_ERROR \<Rightarrow> ''Unknown column''
                            | ER_PARSE_ERROR \<Rightarrow> ''You have an error in your SQL syntax'')"

text \<open>The write statements a handler sends, in the order it sends them.\<close>

datatype stmt =
    InsertTrade "string list"
  | UpdateTrade "string list" string
  | DeleteTrade string

definition has_columns :: "sqldb \<Rightarrow> string list \<Rightarrow> bool" where
  "has_columns db cs = list_all (\<lambda>c. c \<in> set (trade_columns db)) cs"

definition sql_eq :: "jv option \<Rightarrow> jv \<Rightarrow> bool" where
  "sql_eq cell v = (case cell of None \<Rightarrow> False | Some c \<Rightarrow> c \<noteq> JNull \<and> v \<noteq> JNull \<and> c = v)"

definition row_matches :: "(string \<times> jv) list \<Rightarrow> obj \<Rightarrow> bool" where
  "row_matches conds r = list_all (\<lambda>cv. sql_eq (obj_get r (fst cv)) (snd cv)) conds"

text \<open>
  \<open>ORDER BY col DESC\<close>: nulls sort lowest, dates and numbers by value, text
  by code unit. The order among equal keys is the engine's choice; the model
  fixes one.
\<close>

definition sql_key :: "jv option \<Rightarrow> nat \<times> rat \<times> nat list" where
  "sql_key cell =
     (case cell of
        Some (JDate n) \<Rightarrow> (1, of_int n, [])
      | Some (JNum r) \<Rightarrow> (1, r, [])
      | Some (JBool b) \<Rightarrow> (1, if b then 1 else 0, [])
      | Some (JStr s) \<Rightarrow> (2, 0, map of_char s)
      | _ \<Rightarrow> (0, 0, []))"

definition order_desc :: "string \<Rightarrow> obj list \<Rightarrow> obj list" where
  "order_desc col rs = rev (sort_key (\<lambda>r. sql_key (obj_get r col)) rs)"

text \<open>\<open>LIMIT l OFFSET off\<close>.\<close>

definition limit_offset :: "(int \<times> int) option \<Rightarrow> 'a list \<Rightarrow> sqlerr + 'a list" where
  "limit_offset pg rs =
     (case pg of
        None \<Rightarrow> Inr rs
      | Some (l, off) \<Rightarrow>
          if l < 0 \<or> off < 0 then Inl ER_PARSE_ERROR
          else Inr (take (nat l) (drop (nat off) rs)))"

text \<open>\<open>SELECT * FROM trades [WHERE c = ? AND ...] [ORDER BY col DESC] [LIMIT ? OFFSET ?]\<close>.\<close>

definition select_trades ::
  "sqldb \<Rightarrow> (string \<times> jv) list \<Rightarrow> string option \<Rightarrow> (int \<times> int) option \<Rightarrow> sqlerr + obj list" where
  "select_trades db conds orderCol pg =
     (if \<not> has_columns db (map fst conds @ (case orderCol of None \<Rightarrow> [] | Some c \<Rightarrow> [c]))
      then Inl ER_BAD_FIELD_ERROR
      else limit_offset pg
             (let rs = filter (row_matches conds) (trade_rows db)
              in case orderCol of None \<Rightarrow> rs | Some c \<Rightarrow> order_desc c rs))"

text \<open>\<open>SELECT COUNT(*) as total FROM trades [WHERE ...]\<close>.\<close>

definition count_trades :: "sqldb \<Rightarrow> (string \<times> jv) list \<Rightarrow> sqlerr + nat" where
  "count_trades db conds =
     (if \<not> has_columns db (map fst conds) then Inl ER_BAD_FIELD_ERROR
      else Inr (length (filter (row_matches conds) (trade_rows db))))"

text \<open>\<open>SELECT user_id FROM trades WHERE id = ?\<close>.\<close>

definition select_owner :: "sqldb \<Rightarrow> string \<Rightarrow> sqlerr + obj list" where
  "select_owner db i =
     (if \<not> has_columns db [''user_id'', ''id''] then Inl ER_BAD_FIELD_ERROR
      else Inr (map (\<lambda>r. [(''user_id'', case obj_get r ''user_id'' of None \<Rightarrow> JNull | Some v \<Rightarrow> v)])
                  (filter (\<lambda>r. sql_eq (obj_get r ''id'') (JStr i)) (trade_rows db))))"

text \<open>\<open>INSERT INTO trades (c1, ..., cn) VALUES (?, ..., ?)\<close>.\<close>

definition insert_trade :: "sqldb \<Rightarrow> obj \<Rightarrow> sqlerr + sqldb" where
  "insert_trade db r =
     (if \<not> has_columns db (map fst r) then Inl ER_BAD_FIELD_ERROR
      else Inr (db\<lparr>trade_rows := trade_rows db @ [r]\<rparr>))"

text \<open>A column written in backticks is the column of that name.\<close>

definition unquote :: "string \<Rightarrow> string" where
  "unquote c =
     (if 2 \<le> length c \<and> hd c = CHR 0x60 \<and> last c = CHR 0x60 then butlast (tl c) else c)"

text \<open>\<open>UPDATE trades SET c1 = ?, ..., cn = ? WHERE id = ?\<close>; assignments apply left to right.\<close>

definition update_trade :: "sqldb \<Rightarrow> (string \<times> jv) list \<Rightarrow> string \<Rightarrow> sqlerr + sqldb" where
  "update_trade db sets i =
     (if \<not> has_columns db (map (unquote \<circ> fst) sets @ [''id'']) then Inl ER_BAD_FIELD_ERROR
      else Inr (db\<lparr>trade_rows :=
                  map (\<lambda>r. if sql_eq (obj_get r ''id'') (JStr i)
                           then foldl (\<lambda>acc cv. obj_put (unquote (fst cv)) (snd cv) acc) r sets
                           else r)
                      (trade_rows db)\<rparr>))"

text \<open>\<open>DELETE FROM trades WHERE id = ?\<close>.\<close>

definition delete_trade :: "sqldb \<Rightarrow> string \<Rightarrow> sqlerr + sqldb" where
  "delete_trade db i =
     (if \<not> has_columns db [''id''] then Inl ER_BAD_FIELD_ERROR
      else Inr (db\<lparr>trade_rows := filter (\<lambda>r. \<not> sql_eq (obj_get r ''id'') (JStr i)) (trade_rows db)\<rparr>))"




text \<open>
  The statement of the daily job:
  \<open>UPDATE trades SET chart_before_url = NULL, chart_after_url = NULL, updated_at = NOW()
  WHERE created_at <= DATE_SUB(NOW(), INTERVAL 7 DAY)
  AND (chart_before_url IS NOT NULL OR chart_after_url IS NOT NULL)\<close>.
  A comparison with \<open>NULL\<close> is not true.
\<close>

definition is_not_null :: "jv option \<Rightarrow> bool" where
  "is_not_null cell = (cell \<noteq> None \<and> cell \<noteq> Some JNull)"

definition cleanup_where :: "int \<Rightarrow> obj \<Rightarrow> bool" where
  "cleanup_where t r =
     ((case obj_get r ''created_at'' of Some (JDate c) \<Rightarrow> c \<le> t - seven_days | _ \<Rightarrow> False)
      \<and> (is_not_null (obj_get r ''chart_before_url'') \<or> is_not_null (obj_get r ''chart_after_url'')))"

definition cleanup_set :: "int \<Rightarrow> obj \<Rightarrow> obj" where
  "cleanup_set t r =
     obj_put ''updated_at'' (JDate t)
       (obj_put ''chart_after_url'' JNull (obj_put ''chart_before_url'' JNull r))"

definition cleanup_images :: "sqldb \<Rightarrow> int \<Rightarrow> sqlerr + sqldb" where
  "cleanup_images db t =
     (if \<not> has_columns db [''chart_before_url'', ''chart_after_url'', ''updated_at'', ''created_at'']
      then Inl ER_BAD_FIELD_ERROR
      else Inr (db\<lparr>trade_rows :=
                  map (\<lambda>r. if cleanup_where t r then cleanup_set t r else r) (trade_rows db)\<rparr>))"

section \<open>Request handlers\<close>

text \<open>
  \<open>USE_MOCK_DB\<close> is fixed when the process starts; every handler branches on
  it. A handler takes the decoded claims that \<open>verifyToken\<close> left in
  \<open>req.user\<close>, the route parameter, the query or the JSON body, and the store.
  Query parameters are single strings. A body is a JSON object whose keys
  are distinct.
\<close>

datatype store = Mock MockDatabase | Real sqldb

record query =
  q_page :: "string option"
  q_limit :: "string option"
  q_status :: "string option"
  q_role :: "string option"

definition ok_json :: "jv \<Rightarrow> response" where
  "ok_json v = \<lparr>statusCode = 200, json = v\<rparr>"

definition pagination :: "int \<Rightarrow> int \<Rightarrow> nat \<Rightarrow> jv" where
  "pagination page lmt tot =
     JObj [(''page'', JNum (of_int page)),
           (''limit'', JNum (of_int lmt)),
           (''total'', JNum (of_nat tot)),
           (''totalPages'', JNum (of_int (ceil_div (int tot) lmt)))]"

subsection \<open>POST /api/auth/login\<close>








subsection \<open>GET /api/users\<close>




subsection \<open>GET /api/trades\<close>

definition get_api_trades :: "claims \<Rightarrow> query \<Rightarrow> store \<Rightarrow> response" where
  "get_api_trades u q S =
     (let usePagination = (str_truthy (q_page q) \<or> str_truthy (q_limit q));
          page = int_or (parseInt (q_page q)) 1;
          lmt = int_or (parseInt (q_limit q)) 50;
          st = q_status q;
          off = (page - 1) * lmt
      in case S of
           Mock db \<Rightarrow>
             (let ts0 = getAllTrades db;
                  ts1 = (if role u = ''student''
                         then filter (\<lambda>t. obj_get t ''userId'' = Some (JStr (userId u))) ts0
                         else ts0);
                  ts2 = (if str_truthy st
                         then filter (\<lambda>t. obj_get t ''status'' = Some (JStr (the st))) ts1
                         else ts1)
              in if \<not> usePagination then ok_json (JArr (map JObj ts2))
                 else ok_json (JObj [(''trades'', JArr (map JObj (js_slice ts2 off (off + lmt)))),
                                     (''pagination'', pagination page lmt (length ts2))]))
         | Real db \<Rightarrow>
             (let columnNames = set (trade_columns db);
                  orderCol = (if ''created_at'' \<in> columnNames then Some ''created_at''
                              else if ''updated_at'' \<in> columnNames then Some ''updated_at''
                              else if ''id'' \<in> columnNames then Some ''id''
                              else None);
                  conditions =
                    (if role u = ''student'' then [(''user_id'', JStr (userId u))] else [])
                    @ (if str_truthy st then [(''status'', JStr (the st))] else [])
              in if \<not> usePagination
                 then (case select_trades db conditions orderCol None of
                         Inl e \<Rightarrow> err_response 500 (err_message e)
                       | Inr ts \<Rightarrow> ok_json (JArr (map JObj ts)))
                 else (case count_trades db conditions of
                         Inl e \<Rightarrow> err_response 500 (err_message e)
                       | Inr tot \<Rightarrow>
                           (case select_trades db conditions orderCol (Some (lmt, off)) of
                              Inl e \<Rightarrow> err_response 500 (err_message e)
                            | Inr ts \<Rightarrow>
                                ok_json (JObj [(''trades'', JArr (map JObj ts)),
                                               (''pagination'', pagination page lmt tot)])))))"

subsection \<open>POST /api/trades\<close>

text \<open>
  \<open>newId\<close> is what \<open>generateId()\<close> returns for this request and \<open>t\<close> the
  instant of \<open>new Date()\<close>. The result is the response, the store after the
  request and the write statements sent to MySQL.
\<close>

definition post_api_trades ::
  "string \<Rightarrow> int \<Rightarrow> claims \<Rightarrow> obj \<Rightarrow> store \<Rightarrow> response \<times> store \<times> stmt list" where
  "post_api_trades newId t u body S =
     (if role u \<noteq> ''student'' then (err_response 403 ''Students only'', S, [])
      else
        (let asset = obj_get body ''asset'';
             direction = obj_get body ''direction'';
             entry = obj_get body ''entry'';
             sl = obj_get body ''sl'';
             tp = obj_get body ''tp'';
             exitPrice = obj_get body ''exit'';
             status = obj_get body ''status'';
             strategy = obj_get body ''strategy'';
             emotion = obj_get body ''emotion'';
             reviewed_by = obj_get body ''reviewed_by'';
             planned_r = js_coalesce (obj_get body ''planned_r'') (obj_get body ''plannedR'') JNull;
             actual_r = js_coalesce (obj_get body ''actual_r'') (obj_get body ''actualR'') JNull;
             display_unit =
               js_coalesce (obj_get body ''display_unit'') (obj_get body ''displayUnit'') (JStr ''pips'');
             chart_before_url =
               js_coalesce (obj_get body ''chart_before_url'') (obj_get body ''chartBeforeUrl'') JNull;
             chart_after_url =
               js_coalesce (obj_get body ''chart_after_url'') (obj_get body ''chartAfterUrl'') JNull
         in if \<not> truthy asset \<or> \<not> truthy direction \<or> \<not> truthy entry \<or> \<not> truthy sl
            then (err_response 400 ''Missing required fields'', S, [])
            else
              (case S of
                 Mock db \<Rightarrow>
                   (let (trade, db') =
                          createTrade db
                            [(''userId'', JStr (userId u)),
                             (''asset'', the asset),
                             (''direction'', the direction),
                             (''entry'', the entry),
                             (''sl'', the sl),
                             (''tp'', js_or tp JNull),
                             (''exit'', js_or exitPrice JNull),
                             (''status'', js_or status (JStr ''pending'')),
                             (''strategy'', js_or strategy JNull),
                             (''emotion'', js_or emotion JNull),
                             (''plannedR'', planned_r),
                             (''actualR'', actual_r),
                             (''displayUnit'', display_unit),
                             (''chartBeforeUrl'', chart_before_url),
                             (''chartAfterUrl'', chart_after_url),
                             (''reviewedBy'', js_or reviewed_by JNull)]
                    in (\<lparr>statusCode = 201, json = JObj trade\<rparr>, Mock db', []))
               | Real db \<Rightarrow>
                   (let tradeId = newId;
                        now = JDate t;
                        head = [(''id'', JStr tradeId),
                                (''user_id'', JStr (userId u)),
                                (''asset'', the asset),
                                (''direction'', the direction),
                                (''entry'', the entry),
                                (''sl'', the sl),
                                (''tp'', js_or tp JNull),
                                (''exit'', js_or exitPrice JNull),
                                (''status'', js_or status (JStr ''pending'')),
                                (''strategy'', js_or strategy JNull),
                                (''emotion'', js_or emotion JNull),
                                (''planned_r'', planned_r),
                                (''actual_r'', actual_r),
                                (''display_unit'', display_unit)];
                        optional = [(''chart_before_url'', chart_before_url),
                                    (''chart_after_url'', chart_after_url),
                                    (''reviewed_by'', js_or reviewed_by JNull)];
                        stamps = [(''created_at'', now), (''updated_at'', now)];
                        full = head @ optional @ stamps;
                        created = \<lparr>statusCode = 201, json = JObj full\<rparr>
                    in case insert_trade db full of
                         Inr db' \<Rightarrow> (created, Real db', [InsertTrade (map fst full)])
                       | Inl ER_BAD_FIELD_ERROR \<Rightarrow>
                           (case insert_trade db (head @ stamps) of
                              Inr db' \<Rightarrow>
                                (created, Real db',
                                 [InsertTrade (map fst full), InsertTrade (map fst (head @ stamps))])
                            | Inl e \<Rightarrow>
                                (err_response 500 (err_message e), Real db,
                                 [InsertTrade (map fst full), InsertTrade (map fst (head @ stamps))]))
                       | Inl e \<Rightarrow>
                           (err_response 500 (err_message e), Real db,
                            [InsertTrade (map fst full)])))))"

subsection \<open>PATCH /api/trades/:id\<close>

definition columnMap :: "string \<Rightarrow> string option" where
  "columnMap = map_of
     [(''userId'', ''user_id''),
      (''createdAt'', ''created_at''),
      (''updatedAt'', ''updated_at''),
      (''plannedR'', ''planned_r''),
      (''actualR'', ''actual_r''),
      (''displayUnit'', ''display_unit''),
      (''exit'', CHR 0x60 # ''exit'' @ [CHR 0x60]),
      (''date'', ''created_at''),
      (''reviewedBy'', ''reviewed_by''),
      (''chartBeforeUrl'', ''chart_before_url''),
      (''chartAfterUrl'', ''chart_after_url'')]"

definition blockedFields :: "string list" where
  "blockedFields =
     [''createdAt'', ''created_at'', ''updatedAt'', ''updated_at'', ''userId'', ''user_id'', ''id'', ''date'']"

record entry =
  column :: string
  val :: jv
  originalKey :: string

definition to_entry :: "string \<times> jv \<Rightarrow> entry" where
  "to_entry kv =
     \<lparr>column = (case columnMap (fst kv) of Some c \<Rightarrow> c | None \<Rightarrow> fst kv),
      val = snd kv,
      originalKey = fst kv\<rparr>"

text \<open>The fields dropped before the second attempt.\<close>

definition survives_retry :: "entry \<Rightarrow> bool" where
  "survives_retry e =
     (originalKey e \<notin> set [''reviewedBy'', ''reviewed_by'', ''chartBeforeUrl'', ''chart_before_url'',
                             ''chartAfterUrl'', ''chart_after_url'']
      \<and> column e \<notin> set [''reviewed_by'', ''chart_before_url'', ''chart_after_url''])"

definition set_clause :: "int \<Rightarrow> entry list \<Rightarrow> (string \<times> jv) list" where
  "set_clause t es = map (\<lambda>e. (column e, val e)) es @ [(''updated_at'', JDate t)]"

definition patch_api_trades_id ::
  "int \<Rightarrow> claims \<Rightarrow> string \<Rightarrow> obj \<Rightarrow> store \<Rightarrow> response \<times> store \<times> stmt list" where
  "patch_api_trades_id t u i updates S =
     (case S of
        Mock db \<Rightarrow>
          (case getTradeById db i of
             None \<Rightarrow> (err_response 404 ''Trade not found'', S, [])
           | Some existing \<Rightarrow>
               if role u = ''student'' \<and> obj_get existing ''userId'' \<noteq> Some (JStr (userId u))
               then (err_response 403 ''Cannot modify other trades'', S, [])
               else (let (updated, db') = updateTrade db i updates
                     in (ok_json (case updated of None \<Rightarrow> JNull | Some tr \<Rightarrow> JObj tr), Mock db', [])))
      | Real db \<Rightarrow>
          (case select_owner db i of
             Inl e \<Rightarrow> (err_response 500 (err_message e), S, [])
           | Inr [] \<Rightarrow> (err_response 404 ''Trade not found'', S, [])
           | Inr (row # _) \<Rightarrow>
               if role u = ''student'' \<and> obj_get row ''user_id'' \<noteq> Some (JStr (userId u))
               then (err_response 403 ''Cannot modify other trades'', S, [])
               else
                 (let filteredUpdates = filter (\<lambda>kv. fst kv \<notin> set blockedFields) updates;
                      entries = map to_entry filteredUpdates
                  in if entries = [] then (err_response 400 ''No fields to update'', S, [])
                     else
                       (let first = UpdateTrade (map fst (set_clause t entries)) i
                        in case update_trade db (set_clause t entries) i of
                             Inr db' \<Rightarrow>
                               (ok_json (JObj [(''message'', JStr ''Trade updated'')]), Real db', [first])
                           | Inl ER_BAD_FIELD_ERROR \<Rightarrow>
                               (let filtered = filter survives_retry entries;
                                    second = UpdateTrade (map fst (set_clause t filtered)) i
                                in if filtered = []
                                   then (err_response 400 ''No fields to update'', S, [first])
                                   else (case update_trade db (set_clause t filtered) i of
                                           Inr db' \<Rightarrow>
                                             (ok_json (JObj [(''message'', JStr ''Trade updated'')]),
                                              Real db', [first, second])
                                         | Inl e \<Rightarrow>
                                             (err_response 500 (err_message e), S, [first, second])))
                           | Inl e \<Rightarrow> (err_response 500 (err_message e), S, [first])))))"

subsection \<open>DELETE /api/trades/:id\<close>

definition delete_api_trades_id ::
  "claims \<Rightarrow> string \<Rightarrow> store \<Rightarrow> response \<times> store \<times> stmt list" where
  "delete_api_trades_id u i S =
     (case S of
        Mock db \<Rightarrow>
          (case getTradeById db i of
             None \<Rightarrow> (err_response 404 ''Trade not found'', S, [])
           | Some existing \<Rightarrow>
               if role u = ''student'' \<and> obj_get existing ''userId'' \<noteq> Some (JStr (userId u))
               then (err_response 403 ''Cannot delete other trades'', S, [])
               else (let (deleted, db') = deleteTrade db i
                     in (ok_json (JObj [(''message'', JStr ''Trade deleted'')]), Mock db', [])))
      | Real db \<Rightarrow>
          (case select_owner db i of
             Inl e \<Rightarrow> (err_response 500 (err_message e), S, [])
           | Inr [] \<Rightarrow> (err_response 404 ''Trade not found'', S, [])
           | Inr (row # _) \<Rightarrow>
               if role u = ''student'' \<and> obj_get row ''user_id'' \<noteq> Some (JStr (userId u))
               then (err_response 403 ''Cannot delete other trades'', S, [])
               else (case delete_trade db i of
                       Inr db' \<Rightarrow>
                         (ok_json (JObj [(''message'', JStr ''Trade deleted'')]), Real db', [DeleteTrade i])
                     | Inl e \<Rightarrow> (err_response 500 (err_message e), S, [DeleteTrade i]))))"

subsection \<open>The daily image cleanup\<close>

text \<open>
  The job is scheduled only when the relational store is in use. It sends
  the cleanup statement once; a failure is logged and leaves the table as it
  was. The statistics query that follows reads only.
\<close>

definition image_cleanup :: "int \<Rightarrow> store \<Rightarrow> store" where
  "image_cleanup t S =
     (case S of
        Mock db \<Rightarrow> S
      | Real db \<Rightarrow> (case cleanup_images db t of Inl e \<Rightarrow> S | Inr db' \<Rightarrow> Real db'))"

subsection \<open>Protected routes\<close>






section \<open>Reading stores and responses\<close>

text \<open>
  The vocabulary of the properties below. The owner of a trade is the field
  the handlers of each store compare with the caller: \<open>userId\<close> on an object
  of the in-memory store, \<open>user_id\<close> on a row.
\<close>

definition stored_trades :: "store \<Rightarrow> obj list" where
  "stored_trades S = (case S of Mock db \<Rightarrow> trades db | Real db \<Rightarrow> trade_rows db)"


definition owner_field :: "store \<Rightarrow> string" where
  "owner_field S = (case S of Mock db \<Rightarrow> ''userId'' | Real db \<Rightarrow> ''user_id'')"

definition trade_by_id :: "store \<Rightarrow> string \<Rightarrow> obj option" where
  "trade_by_id S i = find (\<lambda>t. obj_get t ''id'' = Some (JStr i)) (stored_trades S)"


text \<open>The columns a statement of the relational store needs; nothing for the in-memory store.\<close>

definition columns_present :: "store \<Rightarrow> string list \<Rightarrow> bool" where
  "columns_present S cs = (case S of Mock db \<Rightarrow> True | Real db \<Rightarrow> has_columns db cs)"

text \<open>A field of a JSON response body.\<close>

definition json_field :: "jv \<Rightarrow> string \<Rightarrow> jv option" where
  "json_field v k = (case v of JObj ps \<Rightarrow> map_of ps k | _ \<Rightarrow> None)"

text \<open>The trades a list response carries: the bare array, or the array under \<open>trades\<close>.\<close>

definition result_items :: "jv \<Rightarrow> jv list" where
  "result_items v =
     (case v of
        JArr xs \<Rightarrow> xs
      | JObj ps \<Rightarrow> (case map_of ps ''trades'' of Some (JArr xs) \<Rightarrow> xs | _ \<Rightarrow> [])
      | _ \<Rightarrow> [])"













section \<open>Example data\<close>

text \<open>
  A small store in the shape of the seed data: an admin, a coach, two
  students and one account awaiting approval; one trade of each student.
  The example collaborators accept one token and compare a password with
  the digest \<open>hash:password\<close>.
\<close>

definition demo_user :: "string \<Rightarrow> string \<Rightarrow> string \<Rightarrow> string \<Rightarrow> string \<Rightarrow> user" where
  "demo_user i n mail rl st =
     \<lparr>u_id = i, u_name = n, u_email = mail, u_password_hash = ''hash:secret'',
      u_role = rl, u_status = st, u_created_at = 0, u_updated_at = 0\<rparr>"

definition demo_users :: "user list" where
  "demo_users =
     [demo_user ''admin-001'' ''Admin User'' ''admin@example.com'' ''admin'' ''approved'',
      demo_user ''coach-001'' ''Coach'' ''coach@example.com'' ''coach'' ''approved'',
      demo_user ''student-002'' ''Alice Trader'' ''alice@example.com'' ''student'' ''approved'',
      demo_user ''student-003'' ''Bob Trader'' ''bob@example.com'' ''student'' ''approved'',
      demo_user ''student-009'' ''Pat'' ''pat@example.com'' ''student'' ''pending'']"

definition demo_trade :: "string \<Rightarrow> string \<Rightarrow> obj" where
  "demo_trade i owner =
     [(''id'', JStr i), (''userId'', JStr owner), (''user_id'', JStr owner),
      (''asset'', JStr ''EURUSD''), (''status'', JStr ''pending''),
      (''chart_before_url'', JNull), (''chart_after_url'', JNull),
      (''created_at'', JDate 0), (''updated_at'', JDate 0)]"

definition demo_mock :: MockDatabase where
  "demo_mock = \<lparr>users = demo_users,
                 trades = [demo_trade ''t1'' ''student-002'', demo_trade ''t2'' ''student-003'']\<rparr>"

definition demo_columns :: "string list" where
  "demo_columns =
     [''id'', ''user_id'', ''asset'', ''direction'', ''entry'', ''sl'', ''tp'', ''exit'', ''status'',
      ''strategy'', ''emotion'', ''planned_r'', ''actual_r'', ''display_unit'',
      ''chart_before_url'', ''chart_after_url'', ''created_at'', ''updated_at'']"

definition demo_row :: "string \<Rightarrow> string \<Rightarrow> int \<Rightarrow> jv \<Rightarrow> obj" where
  "demo_row i owner c chart =
     [(''id'', JStr i), (''user_id'', JStr owner), (''asset'', JStr ''EURUSD''),
      (''status'', JStr ''pending''), (''chart_before_url'', chart), (''chart_after_url'', JNull),
      (''created_at'', JDate c), (''updated_at'', JDate c)]"

definition demo_sql :: sqldb where
  "demo_sql = \<lparr>trade_columns = demo_columns,
                trade_rows = [demo_row ''t1'' ''student-002'' 0 JNull],
                user_rows = demo_users\<rparr>"

definition alice :: claims where
  "alice = \<lparr>userId = ''student-002'', email = ''alice@example.com'', role = ''student''\<rparr>"

definition coach :: claims where
  "coach = \<lparr>userId = ''coach-001'', email = ''coach@example.com'', role = ''coach''\<rparr>"

definition no_query :: query where
  "no_query = \<lparr>q_page = None, q_limit = None, q_status = None, q_role = None\<rparr>"


text \<open>Request bodies: a new trade that names an owner, and credentials.\<close>

definition demo_body :: "string \<Rightarrow> obj" where
  "demo_body owner =
     [(''asset'', JStr ''EURUSD''), (''direction'', JStr ''long''), (''entry'', JNum 100),
      (''sl'', JNum 99), (''user_id'', JStr owner)]"




text \<open>
  Three rows met by the cleanup at instant 864000 (day ten): created on day
  two with a chart, on day four with a chart, and on day two with none. And
  a table whose one row was created exactly seven days before instant
  604800.
\<close>

definition aged_rows :: "obj list" where
  "aged_rows =
     [demo_row ''t1'' ''student-002'' 172800 (JStr ''data:image/png;base64,AAAA''),
      demo_row ''t2'' ''student-002'' 345600 (JStr ''data:image/png;base64,BBBB''),
      demo_row ''t3'' ''student-003'' 172800 JNull]"

definition aged_sql :: sqldb where
  "aged_sql = \<lparr>trade_columns = demo_columns, trade_rows = aged_rows, user_rows = demo_users\<rparr>"

definition boundary_sql :: sqldb where
  "boundary_sql = \<lparr>trade_columns = demo_columns,
                     trade_rows = [demo_row ''t1'' ''student-002'' 0 (JStr ''data:image/png;base64,AAAA'')],
                     user_rows = demo_users\<rparr>"



section \<open>Auxiliary facts\<close>

lemma set_js_slice: "set (js_slice xs a b) \<subseteq> set xs"
  unfolding js_slice_def Let_def
  by (meson set_take_subset set_drop_subset subset_trans)

lemma set_order_desc: "set (order_desc c rs) = set rs"
  by (simp add: order_desc_def)

lemma limit_offset_sub: "limit_offset pg rs = Inr ts \<Longrightarrow> set ts \<subseteq> set rs"
  unfolding limit_offset_def
  by (auto split: option.splits prod.splits if_splits dest: in_set_takeD in_set_dropD)

lemma select_trades_sub:
  assumes "select_trades db conds oc pg = Inr ts"
  shows "set ts \<subseteq> {r \<in> set (trade_rows db). row_matches conds r}"
proof -
  from assms have "limit_offset pg (let rs = filter (row_matches conds) (trade_rows db)
              in case oc of None \<Rightarrow> rs | Some c \<Rightarrow> order_desc c rs) = Inr ts"
    by (simp add: select_trades_def split: if_splits)
  from limit_offset_sub[OF this] show ?thesis
    by (auto simp: Let_def set_order_desc split: option.splits)
qed

lemma sql_eq_str: "sql_eq cell (JStr s) = (cell = Some (JStr s))"
  by (auto simp: sql_eq_def split: option.splits)

lemma demo_list_mock:
  "json (get_api_trades alice no_query (Mock demo_mock)) = JArr [JObj (demo_trade ''t1'' ''student-002'')]"
  by (simp add: get_api_trades_def alice_def no_query_def demo_mock_def getAllTrades_def
      str_truthy_def parseInt_def int_or_def ok_json_def demo_trade_def obj_get_def)

section \<open>Listing trades as a student\<close>

text \<open>
  C1. When the caller's role is student, every trade that GET /api/trades
  returns, as a bare array or inside the paginated envelope, with or without
  a status filter, in either store, has the caller's session userId as its
  owner. An error response carries no trade.
\<close>

theorem student_lists_only_own_trades:
  assumes stu: "role u = ''student''"
    and mem: "x \<in> set (result_items (json (get_api_trades u q S)))"
  shows "\<exists>t. x = JObj t \<and> obj_get t (owner_field S) = Some (JStr (userId u))"
proof (cases S)
  case (Mock db)
  let ?own = "filter (\<lambda>t. obj_get t ''userId'' = Some (JStr (userId u))) (trades db)"
  let ?vis = "if str_truthy (q_status q)
              then filter (\<lambda>t. obj_get t ''status'' = Some (JStr (the (q_status q)))) ?own
              else ?own"
  have vis: "set ?vis \<subseteq> set ?own" by auto
  from mem Mock stu obtain ys where x: "x \<in> JObj ` set ys" and ys: "set ys \<subseteq> set ?vis"
    using set_js_slice[of ?vis]
    by (auto simp: get_api_trades_def Let_def getAllTrades_def ok_json_def result_items_def
        split: if_splits)
  then show ?thesis using vis Mock by (auto simp: owner_field_def)
next
  case (Real db)
  let ?conds = "[(''user_id'', JStr (userId u))]
                @ (if str_truthy (q_status q) then [(''status'', JStr (the (q_status q)))] else [])"
  from mem Real stu obtain ts oc pg
    where sel: "select_trades db ?conds oc pg = Inr ts" and x: "x \<in> JObj ` set ts"
    by (auto simp: get_api_trades_def Let_def ok_json_def result_items_def err_response_def
        split: if_splits sum.splits)
  from select_trades_sub[OF sel] x obtain r where r: "x = JObj r" "row_matches ?conds r" by auto
  then have "sql_eq (obj_get r ''user_id'') (JStr (userId u))" by (simp add: row_matches_def)
  with r Real show ?thesis by (auto simp: owner_field_def sql_eq_str)
qed

theorem student_lists_only_own_trades_witness:
  "role alice = ''student''
   \<and> JObj (demo_trade ''t1'' ''student-002'')
       \<in> set (result_items (json (get_api_trades alice no_query (Mock demo_mock))))
   \<and> (\<exists>t. JObj (demo_trade ''t1'' ''student-002'') = JObj t
          \<and> obj_get t (owner_field (Mock demo_mock)) = Some (JStr (userId alice)))"
proof -
  have r: "role alice = ''student''" by (simp add: alice_def)
  have m: "JObj (demo_trade ''t1'' ''student-002'')
             \<in> set (result_items (json (get_api_trades alice no_query (Mock demo_mock))))"
    by (simp add: demo_list_mock result_items_def)
  from student_lists_only_own_trades[OF r m] r m show ?thesis by blast
qed

section \<open>Facts about POST /api/trades\<close>

lemma post_reads_no_owner:
  assumes agree: "\<forall>k. k \<notin> {''user_id'', ''userId''} \<longrightarrow> obj_get b1 k = obj_get b2 k"
  shows "post_api_trades newId t u b1 S = post_api_trades newId t u b2 S"
proof -
  have eqs:
    "obj_get b1 ''asset'' = obj_get b2 ''asset''"
    "obj_get b1 ''direction'' = obj_get b2 ''direction''"
    "obj_get b1 ''entry'' = obj_get b2 ''entry''"
    "obj_get b1 ''sl'' = obj_get b2 ''sl''"
    "obj_get b1 ''tp'' = obj_get b2 ''tp''"
    "obj_get b1 ''exit'' = obj_get b2 ''exit''"
    "obj_get b1 ''status'' = obj_get b2 ''status''"
    "obj_get b1 ''strategy'' = obj_get b2 ''strategy''"
    "obj_get b1 ''emotion'' = obj_get b2 ''emotion''"
    "obj_get b1 ''reviewed_by'' = obj_get b2 ''reviewed_by''"
    "obj_get b1 ''planned_r'' = obj_get b2 ''planned_r''"
    "obj_get b1 ''plannedR'' = obj_get b2 ''plannedR''"
    "obj_get b1 ''actual_r'' = obj_get b2 ''actual_r''"
    "obj_get b1 ''actualR'' = obj_get b2 ''actualR''"
    "obj_get b1 ''display_unit'' = obj_get b2 ''display_unit''"
    "obj_get b1 ''displayUnit'' = obj_get b2 ''displayUnit''"
    "obj_get b1 ''chart_before_url'' = obj_get b2 ''chart_before_url''"
    "obj_get b1 ''chartBeforeUrl'' = obj_get b2 ''chartBeforeUrl''"
    "obj_get b1 ''chart_after_url'' = obj_get b2 ''chart_after_url''"
    "obj_get b1 ''chartAfterUrl'' = obj_get b2 ''chartAfterUrl''"
    using agree by simp_all
  show ?thesis unfolding post_api_trades_def by (simp only: eqs)
qed


lemma obj_get_Cons: "obj_get ((k, v) # ps) k' = (if k = k' then Some v else obj_get ps k')"
  by (simp add: obj_get_def)

lemma post_not_student:
  "role u \<noteq> ''student'' \<Longrightarrow> post_api_trades newId t u body S = (err_response 403 ''Students only'', S, [])"
  by (simp add: post_api_trades_def)

lemma post_missing:
  "role u = ''student'' \<Longrightarrow>
   \<not> (truthy (obj_get body ''asset'') \<and> truthy (obj_get body ''direction'')
      \<and> truthy (obj_get body ''entry'') \<and> truthy (obj_get body ''sl'')) \<Longrightarrow>
   post_api_trades newId t u body S = (err_response 400 ''Missing required fields'', S, [])"
  by (simp add: post_api_trades_def Let_def)

lemma post_created_owner:
  assumes res: "post_api_trades newId t u body S = (r, S', lg)" and created: "statusCode r = 201"
  shows "\<exists>tr. stored_trades S' = stored_trades S @ [tr]
            \<and> obj_get tr (owner_field S) = Some (JStr (userId u))
            \<and> json_field (json r) (owner_field S) = Some (JStr (userId u))"
proof -
  have stu: "role u = ''student''"
  proof (rule ccontr)
    assume "role u \<noteq> ''student''"
    from post_not_student[OF this, of newId t body S] res created show False
      by (simp add: err_response_def)
  qed
  have req: "truthy (obj_get body ''asset'') \<and> truthy (obj_get body ''direction'')
             \<and> truthy (obj_get body ''entry'') \<and> truthy (obj_get body ''sl'')"
  proof (rule ccontr)
    assume "\<not> (truthy (obj_get body ''asset'') \<and> truthy (obj_get body ''direction'')
             \<and> truthy (obj_get body ''entry'') \<and> truthy (obj_get body ''sl''))"
    from post_missing[OF stu this, of newId t S] res created show False
      by (simp add: err_response_def)
  qed
  show ?thesis
  proof (cases S)
    case (Mock db)
    from res stu req Mock have "\<exists>rest. S' = Mock (db\<lparr>trades := trades db @ [(''userId'', JStr (userId u)) # rest]\<rparr>)
        \<and> r = \<lparr>statusCode = 201, json = JObj ((''userId'', JStr (userId u)) # rest)\<rparr>"
      by (auto simp: post_api_trades_def Let_def createTrade_def)
    with Mock show ?thesis
      by (auto simp: stored_trades_def owner_field_def obj_get_Cons json_field_def)
  next
    case (Real db)
    from res stu req Real created
    have "\<exists>i rest. S' = Real (db\<lparr>trade_rows := trade_rows db @ [(''id'', i) # (''user_id'', JStr (userId u)) # rest]\<rparr>)
        \<and> (\<exists>rest'. r = \<lparr>statusCode = 201, json = JObj ((''id'', i) # (''user_id'', JStr (userId u)) # rest')\<rparr>)"
      by (auto simp: post_api_trades_def Let_def insert_trade_def err_response_def
          split: if_splits sqlerr.splits)
    with Real show ?thesis
      by (auto simp: stored_trades_def owner_field_def obj_get_Cons json_field_def)
  qed
qed


section \<open>Creating a trade as a student\<close>

text \<open>
  C2. For a caller whose role is student, POST /api/trades gives the same
  response, store and statements for two bodies that agree on every key
  other than \<open>user_id\<close> and \<open>userId\<close>; and whenever it answers 201, the
  store holds exactly one more trade, whose owner is the caller's session
  userId, as is the owner in the response.
\<close>

theorem student_create_owner:
  assumes "role u = ''student''"
  shows "((\<forall>k. k \<notin> {''user_id'', ''userId''} \<longrightarrow> obj_get b1 k = obj_get b2 k)
            \<longrightarrow> post_api_trades newId t u b1 S = post_api_trades newId t u b2 S)
         \<and> (statusCode (fst (post_api_trades newId t u b1 S)) = 201
            \<longrightarrow> (\<exists>tr. stored_trades (fst (snd (post_api_trades newId t u b1 S))) = stored_trades S @ [tr]
                     \<and> obj_get tr (owner_field S) = Some (JStr (userId u))
                     \<and> json_field (json (fst (post_api_trades newId t u b1 S))) (owner_field S)
                         = Some (JStr (userId u))))"
proof (intro conjI impI)
  assume "\<forall>k. k \<notin> {''user_id'', ''userId''} \<longrightarrow> obj_get b1 k = obj_get b2 k"
  then show "post_api_trades newId t u b1 S = post_api_trades newId t u b2 S"
    by (rule post_reads_no_owner)
next
  assume c: "statusCode (fst (post_api_trades newId t u b1 S)) = 201"
  obtain r S' lg where res: "post_api_trades newId t u b1 S = (r, S', lg)"
    by (cases "post_api_trades newId t u b1 S") auto
  from post_created_owner[OF res] c res
  show "\<exists>tr. stored_trades (fst (snd (post_api_trades newId t u b1 S))) = stored_trades S @ [tr]
                     \<and> obj_get tr (owner_field S) = Some (JStr (userId u))
                     \<and> json_field (json (fst (post_api_trades newId t u b1 S))) (owner_field S)
                         = Some (JStr (userId u))"
    by simp
qed

lemma demo_post_status:
  "statusCode (fst (post_api_trades ''uuid-1'' 1000 alice (demo_body ''student-003'') (Mock demo_mock))) = 201"
  by (simp add: post_api_trades_def alice_def demo_body_def obj_get_def Let_def createTrade_def)

theorem student_create_owner_witness:
  "role alice = ''student''
   \<and> post_api_trades ''uuid-1'' 1000 alice (demo_body ''student-003'') (Mock demo_mock)
       = post_api_trades ''uuid-1'' 1000 alice (demo_body ''student-002'') (Mock demo_mock)
   \<and> statusCode (fst (post_api_trades ''uuid-1'' 1000 alice (demo_body ''student-003'') (Mock demo_mock))) = 201
   \<and> (\<exists>tr. stored_trades (fst (snd (post_api_trades ''uuid-1'' 1000 alice (demo_body ''student-003'') (Mock demo_mock))))
              = stored_trades (Mock demo_mock) @ [tr]
          \<and> obj_get tr (owner_field (Mock demo_mock)) = Some (JStr (userId alice))
          \<and> json_field (json (fst (post_api_trades ''uuid-1'' 1000 alice (demo_body ''student-003'') (Mock demo_mock))))
                (owner_field (Mock demo_mock)) = Some (JStr (userId alice)))"
proof -
  have r: "role alice = ''student''" by (simp add: alice_def)
  have a: "\<forall>k. k \<notin> {''user_id'', ''userId''}
          \<longrightarrow> obj_get (demo_body ''student-003'') k = obj_get (demo_body ''student-002'') k"
    by (simp add: demo_body_def obj_get_def)
  note w = student_create_owner[OF r, of "demo_body ''student-003''" "demo_body ''student-002''"
      "''uuid-1''" 1000 "Mock demo_mock"]
  from w r a demo_post_status show ?thesis by blast
qed

section \<open>Facts about login\<close>

lemma find_filter:
  "find P xs = (case filter P xs of [] \<Rightarrow> None | x # _ \<Rightarrow> Some x)"
  by (induction xs) auto




section \<open>Login\<close>





section \<open>Facts about the guards of PATCH and DELETE\<close>

lemma mock_by_id: "getTradeById db i = trade_by_id (Mock db) i"
  by (simp add: getTradeById_def trade_by_id_def stored_trades_def)

lemma select_owner_rows:
  assumes "has_columns db [''user_id'', ''id'']"
  shows "select_owner db i =
           Inr (map (\<lambda>r. [(''user_id'', case obj_get r ''user_id'' of None \<Rightarrow> JNull | Some v \<Rightarrow> v)])
                  (filter (\<lambda>r. obj_get r ''id'' = Some (JStr i)) (trade_rows db)))"
  using assms by (simp add: select_owner_def sql_eq_str)

lemma real_by_id:
  "trade_by_id (Real db) i =
     (case filter (\<lambda>r. obj_get r ''id'' = Some (JStr i)) (trade_rows db) of [] \<Rightarrow> None | x # _ \<Rightarrow> Some x)"
  by (simp add: trade_by_id_def stored_trades_def find_filter)

lemma projected_owner:
  "(obj_get [(''user_id'', case obj_get r ''user_id'' of None \<Rightarrow> JNull | Some v \<Rightarrow> v)] ''user_id''
      = Some (JStr s)) = (obj_get r ''user_id'' = Some (JStr s))"
  by (simp add: obj_get_Cons split: option.splits)

lemma guards_absent:
  assumes "columns_present S [''user_id'', ''id'']" and "trade_by_id S i = None"
  shows "patch_api_trades_id t u i updates S = (err_response 404 ''Trade not found'', S, [])"
    and "delete_api_trades_id u i S = (err_response 404 ''Trade not found'', S, [])"
proof -
  show "patch_api_trades_id t u i updates S = (err_response 404 ''Trade not found'', S, [])"
  proof (cases S)
    case (Mock db)
    with assms show ?thesis by (simp add: patch_api_trades_id_def mock_by_id)
  next
    case (Real db)
    with assms have "has_columns db [''user_id'', ''id'']" by (simp add: columns_present_def)
    from select_owner_rows[OF this, of i] assms(2) Real show ?thesis
      by (simp add: patch_api_trades_id_def real_by_id split: list.splits)
  qed
  show "delete_api_trades_id u i S = (err_response 404 ''Trade not found'', S, [])"
  proof (cases S)
    case (Mock db)
    with assms show ?thesis by (simp add: delete_api_trades_id_def mock_by_id)
  next
    case (Real db)
    with assms have "has_columns db [''user_id'', ''id'']" by (simp add: columns_present_def)
    from select_owner_rows[OF this, of i] assms(2) Real show ?thesis
      by (simp add: delete_api_trades_id_def real_by_id split: list.splits)
  qed
qed

lemma guards_foreign:
  assumes "columns_present S [''user_id'', ''id'']" and "trade_by_id S i = Some tr"
    and "role u = ''student''" and "obj_get tr (owner_field S) \<noteq> Some (JStr (userId u))"
  shows "patch_api_trades_id t u i updates S = (err_response 403 ''Cannot modify other trades'', S, [])"
    and "delete_api_trades_id u i S = (err_response 403 ''Cannot delete other trades'', S, [])"
proof -
  show "patch_api_trades_id t u i updates S = (err_response 403 ''Cannot modify other trades'', S, [])"
  proof (cases S)
    case (Mock db)
    with assms show ?thesis by (simp add: patch_api_trades_id_def mock_by_id owner_field_def)
  next
    case (Real db)
    with assms have "has_columns db [''user_id'', ''id'']" by (simp add: columns_present_def)
    from select_owner_rows[OF this, of i] assms(2,3,4) Real show ?thesis
      by (simp add: patch_api_trades_id_def real_by_id owner_field_def projected_owner
          split: list.splits)
  qed
  show "delete_api_trades_id u i S = (err_response 403 ''Cannot delete other trades'', S, [])"
  proof (cases S)
    case (Mock db)
    with assms show ?thesis by (simp add: delete_api_trades_id_def mock_by_id owner_field_def)
  next
    case (Real db)
    with assms have "has_columns db [''user_id'', ''id'']" by (simp add: columns_present_def)
    from select_owner_rows[OF this, of i] assms(2,3,4) Real show ?thesis
      by (simp add: delete_api_trades_id_def real_by_id owner_field_def projected_owner
          split: list.splits)
  qed
qed

lemma guards_no_columns:
  assumes "\<not> columns_present S [''user_id'', ''id'']"
  shows "snd (patch_api_trades_id t u i updates S) = (S, [])"
    and "snd (delete_api_trades_id u i S) = (S, [])"
proof -
  from assms obtain db where S: "S = Real db" and "\<not> has_columns db [''user_id'', ''id'']"
    by (cases S) (auto simp: columns_present_def)
  then have o: "select_owner db i = Inl ER_BAD_FIELD_ERROR" by (simp add: select_owner_def)
  show "snd (patch_api_trades_id t u i updates S) = (S, [])"
    by (simp add: S patch_api_trades_id_def o)
  show "snd (delete_api_trades_id u i S) = (S, [])"
    by (simp add: S delete_api_trades_id_def o)
qed

section \<open>Guards of PATCH and DELETE /api/trades/:id\<close>

text \<open>
  C4. In either store: when no trade has the id, or when the caller's role
  is student and the owner of the trade with that id is not the caller,
  PATCH and DELETE leave the store as it was and send no write statement.
  Their answer is 404 in the first case and 403 in the second (on the
  relational store, provided the schema has the \<open>id\<close> and \<open>user_id\<close> columns
  that the lookup names).
\<close>

theorem mutation_guards:
  "(columns_present S [''user_id'', ''id''] \<longrightarrow>
      (trade_by_id S i = None \<longrightarrow>
         patch_api_trades_id t u i updates S = (err_response 404 ''Trade not found'', S, [])
         \<and> delete_api_trades_id u i S = (err_response 404 ''Trade not found'', S, []))
      \<and> (\<forall>tr. trade_by_id S i = Some tr \<and> role u = ''student''
               \<and> obj_get tr (owner_field S) \<noteq> Some (JStr (userId u)) \<longrightarrow>
         patch_api_trades_id t u i updates S = (err_response 403 ''Cannot modify other trades'', S, [])
         \<and> delete_api_trades_id u i S = (err_response 403 ''Cannot delete other trades'', S, [])))
   \<and> (trade_by_id S i = None
       \<or> (\<exists>tr. trade_by_id S i = Some tr \<and> role u = ''student''
                \<and> obj_get tr (owner_field S) \<noteq> Some (JStr (userId u))) \<longrightarrow>
       snd (patch_api_trades_id t u i updates S) = (S, [])
       \<and> snd (delete_api_trades_id u i S) = (S, []))"
proof (cases "columns_present S [''user_id'', ''id'']")
  case True
  from guards_absent[OF True] guards_foreign[OF True] True show ?thesis
    by (auto simp del: split_paired_All split_paired_Ex)
next
  case False
  from guards_no_columns[OF False] False show ?thesis by blast
qed

lemma demo_t2: "trade_by_id (Mock demo_mock) ''t2'' = Some (demo_trade ''t2'' ''student-003'')"
  by (simp add: trade_by_id_def stored_trades_def demo_mock_def demo_trade_def obj_get_def)

lemma demo_t9: "trade_by_id (Mock demo_mock) ''t9'' = None"
  by (simp add: trade_by_id_def stored_trades_def demo_mock_def demo_trade_def obj_get_def)

theorem mutation_guards_witness:
  "columns_present (Mock demo_mock) [''user_id'', ''id'']
   \<and> trade_by_id (Mock demo_mock) ''t9'' = None
   \<and> patch_api_trades_id 1000 alice ''t9'' [(''asset'', JStr ''AAPL'')] (Mock demo_mock)
       = (err_response 404 ''Trade not found'', Mock demo_mock, [])
   \<and> delete_api_trades_id alice ''t9'' (Mock demo_mock)
       = (err_response 404 ''Trade not found'', Mock demo_mock, [])
   \<and> trade_by_id (Mock demo_mock) ''t2'' = Some (demo_trade ''t2'' ''student-003'')
   \<and> role alice = ''student''
   \<and> obj_get (demo_trade ''t2'' ''student-003'') (owner_field (Mock demo_mock)) \<noteq> Some (JStr (userId alice))
   \<and> patch_api_trades_id 1000 alice ''t2'' [(''asset'', JStr ''AAPL'')] (Mock demo_mock)
       = (err_response 403 ''Cannot modify other trades'', Mock demo_mock, [])
   \<and> delete_api_trades_id alice ''t2'' (Mock demo_mock)
       = (err_response 403 ''Cannot delete other trades'', Mock demo_mock, [])"
proof -
  have c: "columns_present (Mock demo_mock) [''user_id'', ''id'']" by (simp add: columns_present_def)
  have r: "role alice = ''student''" by (simp add: alice_def)
  have o: "obj_get (demo_trade ''t2'' ''student-003'') (owner_field (Mock demo_mock)) \<noteq> Some (JStr (userId alice))"
    by (simp add: demo_trade_def owner_field_def obj_get_def alice_def)
  from mutation_guards[of "Mock demo_mock" "''t9''" 1000 alice "[(''asset'', JStr ''AAPL'')]"]
       mutation_guards[of "Mock demo_mock" "''t2''" 1000 alice "[(''asset'', JStr ''AAPL'')]"]
       c r o demo_t2 demo_t9
  show ?thesis by blast
qed

section \<open>Immutable fields on update\<close>

text \<open>
  C5 fails on the in-memory store. Its PATCH branch hands the body to
  \<open>updateTrade\<close> unfiltered: when the student who owns trade t1 sends
  \<open>{userId: student-003}\<close>, the answer is 200 and the stored trade now
  belongs to student-003. The relational branch strips the same key and
  answers 400 with the table untouched.
\<close>

theorem mock_patch_transfers_ownership:
  "statusCode (fst (patch_api_trades_id 1000 alice ''t1'' [(''userId'', JStr ''student-003'')] (Mock demo_mock))) = 200
   \<and> map (\<lambda>tr. obj_get tr ''userId'')
         (stored_trades (fst (snd (patch_api_trades_id 1000 alice ''t1'' [(''userId'', JStr ''student-003'')] (Mock demo_mock)))))
       = [Some (JStr ''student-003''), Some (JStr ''student-003'')]
   \<and> map (\<lambda>tr. obj_get tr ''userId'') (stored_trades (Mock demo_mock))
       = [Some (JStr ''student-002''), Some (JStr ''student-003'')]
   \<and> patch_api_trades_id 1000 alice ''t1'' [(''userId'', JStr ''student-003'')] (Real demo_sql)
       = (err_response 400 ''No fields to update'', Real demo_sql, [])"
  by (simp add: patch_api_trades_id_def getTradeById_def updateTrade_def demo_mock_def demo_trade_def
      alice_def obj_get_def spread_def stored_trades_def ok_json_def
      select_owner_def has_columns_def demo_sql_def demo_columns_def demo_row_def sql_eq_def
      blockedFields_def Let_def)

section \<open>Identifier and timestamps of a created trade\<close>

text \<open>
  C6 fails on the in-memory store. Its POST branch builds the trade without
  \<open>id\<close>, \<open>created_at\<close> or \<open>updated_at\<close> and \<open>createTrade\<close> adds none: the
  trade is stored and returned with 201, yet no id reaches it, so a DELETE
  with the identifier generated for the request answers 404. The relational
  branch stores the generated id and both timestamps.
\<close>

theorem mock_created_trade_has_no_id:
  "statusCode (fst (post_api_trades ''uuid-1'' 1000 alice (demo_body ''student-002'') (Mock demo_mock))) = 201
   \<and> map (\<lambda>k. obj_get (last (stored_trades (fst (snd
            (post_api_trades ''uuid-1'' 1000 alice (demo_body ''student-002'') (Mock demo_mock)))))) k)
         [''id'', ''created_at'', ''updated_at''] = [None, None, None]
   \<and> fst (delete_api_trades_id alice ''uuid-1''
            (fst (snd (post_api_trades ''uuid-1'' 1000 alice (demo_body ''student-002'') (Mock demo_mock)))))
       = err_response 404 ''Trade not found''
   \<and> map (\<lambda>k. obj_get (last (stored_trades (fst (snd
            (post_api_trades ''uuid-1'' 1000 alice (demo_body ''student-002'') (Real demo_sql)))))) k)
         [''id'', ''created_at'', ''updated_at''] = [Some (JStr ''uuid-1''), Some (JDate 1000), Some (JDate 1000)]"
  by (simp add: post_api_trades_def delete_api_trades_id_def createTrade_def getTradeById_def
      demo_body_def demo_mock_def demo_trade_def alice_def obj_get_def stored_trades_def Let_def
      js_or_def js_coalesce_def nullish_def
      insert_trade_def has_columns_def demo_sql_def demo_columns_def demo_row_def)

theorem mock_created_trade_has_no_id_witness:
  "statusCode (fst (post_api_trades ''uuid-1'' 1000 alice (demo_body ''student-002'') (Mock demo_mock))) = 201"
  by (rule conjunct1[OF mock_created_trade_has_no_id])

section \<open>Facts about the list endpoints\<close>































section \<open>Pagination of the list endpoints\<close>





section \<open>Facts about the schema fallback\<close>






section \<open>Strip and retry on an unknown column\<close>













section \<open>Facts about the image cleanup\<close>

lemma obj_get_put: "obj_get (obj_put k v ob) k' = (if k' = k then Some v else obj_get ob k')"
  by (induction ob) (auto simp: obj_get_def)

lemma cleanup_rows:
  assumes "has_columns db [''chart_before_url'', ''chart_after_url'', ''updated_at'', ''created_at'']"
  shows "stored_trades (image_cleanup t (Real db))
           = map (\<lambda>r. if cleanup_where t r then cleanup_set t r else r) (trade_rows db)"
  using assms by (simp add: image_cleanup_def cleanup_images_def stored_trades_def)

lemma cleanup_set_fields:
  "obj_get (cleanup_set t r) f =
     (if f = ''updated_at'' then Some (JDate t)
      else if f = ''chart_after_url'' \<or> f = ''chart_before_url'' then Some JNull
      else obj_get r f)"
  by (simp add: cleanup_set_def obj_get_put)

section \<open>The retention job\<close>

text \<open>
  C9, as amended. On a relational store whose schema has the chart and
  timestamp columns (the start-up check adds them), one run of the job at
  instant \<open>t\<close> keeps the number and order of the rows; a row whose
  \<open>created_at\<close> is a date at least seven days before \<open>t\<close> and that has a
  chart field that is not null gets both chart fields null and
  \<open>updated_at = t\<close>, every other field as before; every other row is left
  as it was.
\<close>

theorem cleanup_effect:
  assumes "has_columns db [''chart_before_url'', ''chart_after_url'', ''updated_at'', ''created_at'']"
    and "k < length (trade_rows db)"
  shows "(let r = trade_rows db ! k; r' = stored_trades (image_cleanup t (Real db)) ! k in
          length (stored_trades (image_cleanup t (Real db))) = length (trade_rows db)
          \<and> ((\<exists>c. obj_get r ''created_at'' = Some (JDate c) \<and> c \<le> t - seven_days)
              \<and> (is_not_null (obj_get r ''chart_before_url'') \<or> is_not_null (obj_get r ''chart_after_url''))
              \<longrightarrow> obj_get r' ''chart_before_url'' = Some JNull
                  \<and> obj_get r' ''chart_after_url'' = Some JNull
                  \<and> obj_get r' ''updated_at'' = Some (JDate t)
                  \<and> (\<forall>f. f \<notin> {''chart_before_url'', ''chart_after_url'', ''updated_at''}
                         \<longrightarrow> obj_get r' f = obj_get r f))
          \<and> (\<not> ((\<exists>c. obj_get r ''created_at'' = Some (JDate c) \<and> c \<le> t - seven_days)
                 \<and> (is_not_null (obj_get r ''chart_before_url'') \<or> is_not_null (obj_get r ''chart_after_url'')))
              \<longrightarrow> r' = r))"
proof -
  let ?r = "trade_rows db ! k"
  have w: "cleanup_where t ?r =
        ((\<exists>c. obj_get ?r ''created_at'' = Some (JDate c) \<and> c \<le> t - seven_days)
          \<and> (is_not_null (obj_get ?r ''chart_before_url'') \<or> is_not_null (obj_get ?r ''chart_after_url'')))"
    by (auto simp: cleanup_where_def split: option.splits jv.splits)
  have n: "stored_trades (image_cleanup t (Real db)) ! k
             = (if cleanup_where t ?r then cleanup_set t ?r else ?r)"
    using assms(2) by (simp add: cleanup_rows[OF assms(1)])
  have l: "length (stored_trades (image_cleanup t (Real db))) = length (trade_rows db)"
    by (simp add: cleanup_rows[OF assms(1)])
  show ?thesis unfolding Let_def n l w[symmetric]
    by (simp add: cleanup_set_fields)
qed

lemma aged_columns:
  "has_columns aged_sql [''chart_before_url'', ''chart_after_url'', ''updated_at'', ''created_at'']"
  by (simp add: has_columns_def aged_sql_def demo_columns_def)

lemma aged_facts:
  "trade_rows aged_sql ! 0 = demo_row ''t1'' ''student-002'' 172800 (JStr ''data:image/png;base64,AAAA'')"
  "trade_rows aged_sql ! Suc 0 = demo_row ''t2'' ''student-002'' 345600 (JStr ''data:image/png;base64,BBBB'')"
  "trade_rows aged_sql ! 2 = demo_row ''t3'' ''student-003'' 172800 JNull"
  "length (trade_rows aged_sql) = 3"
  by (simp_all add: aged_sql_def aged_rows_def)

lemma demo_row_fields:
  "obj_get (demo_row i owner c chart) ''created_at'' = Some (JDate c)"
  "obj_get (demo_row i owner c chart) ''chart_before_url'' = Some chart"
  "obj_get (demo_row i owner c chart) ''chart_after_url'' = Some JNull"
  by (simp_all add: demo_row_def obj_get_def)

theorem cleanup_effect_witness:
  "has_columns aged_sql [''chart_before_url'', ''chart_after_url'', ''updated_at'', ''created_at'']
   \<and> length (stored_trades (image_cleanup 864000 (Real aged_sql))) = 3
   \<and> obj_get (stored_trades (image_cleanup 864000 (Real aged_sql)) ! 0) ''chart_before_url'' = Some JNull
   \<and> obj_get (stored_trades (image_cleanup 864000 (Real aged_sql)) ! 0) ''chart_after_url'' = Some JNull
   \<and> obj_get (stored_trades (image_cleanup 864000 (Real aged_sql)) ! 0) ''updated_at'' = Some (JDate 864000)
   \<and> stored_trades (image_cleanup 864000 (Real aged_sql)) ! Suc 0
       = demo_row ''t2'' ''student-002'' 345600 (JStr ''data:image/png;base64,BBBB'')
   \<and> stored_trades (image_cleanup 864000 (Real aged_sql)) ! 2 = demo_row ''t3'' ''student-003'' 172800 JNull"
proof -
  have k: "0 < length (trade_rows aged_sql)" "Suc 0 < length (trade_rows aged_sql)"
    "2 < length (trade_rows aged_sql)"
    by (simp_all add: aged_facts)
  note w0 = cleanup_effect[OF aged_columns k(1), of 864000]
  note w1 = cleanup_effect[OF aged_columns k(2), of 864000]
  note w2 = cleanup_effect[OF aged_columns k(3), of 864000]
  have a: "length (stored_trades (image_cleanup 864000 (Real aged_sql))) = 3"
    using w0 by (simp add: Let_def aged_facts)
  have b: "obj_get (stored_trades (image_cleanup 864000 (Real aged_sql)) ! 0) ''chart_before_url'' = Some JNull
     \<and> obj_get (stored_trades (image_cleanup 864000 (Real aged_sql)) ! 0) ''chart_after_url'' = Some JNull
     \<and> obj_get (stored_trades (image_cleanup 864000 (Real aged_sql)) ! 0) ''updated_at'' = Some (JDate 864000)"
    using w0 by (simp add: Let_def aged_facts demo_row_fields seven_days_def is_not_null_def)
  have c: "stored_trades (image_cleanup 864000 (Real aged_sql)) ! Suc 0
       = demo_row ''t2'' ''student-002'' 345600 (JStr ''data:image/png;base64,BBBB'')"
    using w1 by (simp add: Let_def aged_facts demo_row_fields seven_days_def is_not_null_def)
  have d: "stored_trades (image_cleanup 864000 (Real aged_sql)) ! 2 = demo_row ''t3'' ''student-003'' 172800 JNull"
    using w2 by (simp add: Let_def aged_facts demo_row_fields seven_days_def is_not_null_def)
  from aged_columns a b c d show ?thesis by blast
qed

text \<open>
  C9 as stated fails at the boundary: a trade created exactly seven days
  before the run, which is not more than seven days old, has its chart
  removed, since the statement compares with \<open><=\<close>.
\<close>

theorem cleanup_at_seven_days_counterexample:
  "obj_get (hd (trade_rows boundary_sql)) ''created_at'' = Some (JDate (604800 - seven_days))
   \<and> obj_get (hd (stored_trades (image_cleanup 604800 (Real boundary_sql)))) ''chart_before_url'' = Some JNull
   \<and> obj_get (hd (trade_rows boundary_sql)) ''chart_before_url'' = Some (JStr ''data:image/png;base64,AAAA'')"
  by (simp add: boundary_sql_def demo_row_fields seven_days_def image_cleanup_def cleanup_images_def
      has_columns_def demo_columns_def stored_trades_def cleanup_where_def is_not_null_def
      cleanup_set_fields)

section \<open>Facts about the token middleware\<close>







section \<open>Authorization from the token alone\<close>








end
